theory Spec2Isabelle
  imports Main
begin

section \<open>Python values\<close>

text \<open>
  A Python \<^verbatim>\<open>bytes\<close> object is a list of 8-bit characters, so a byte literal such as
  \<^verbatim>\<open>b"$argon2i$"\<close> is the HOL string \<open>''$argon2i$''\<close>. A Python \<^verbatim>\<open>str\<close> is a list of
  Unicode code points. The two are different types, as in Python, and the only way from
  one to the other is a codec.
\<close>

type_synonym py_bytes = "char list"
type_synonym py_str = "nat list"

definition ustr :: "string \<Rightarrow> py_str" where
  \<comment> \<open>The \<^verbatim>\<open>str\<close> literal with the given (Latin-1) characters.\<close>
  "ustr s = map of_char s"

text \<open>The enum \<^verbatim>\<open>argon2.low_level.Type\<close>.\<close>

datatype Type = D | I | ID

text \<open>
  The values an argument can hold. \<^verbatim>\<open>bool\<close> is kept apart from \<^verbatim>\<open>int\<close> because it is a
  subclass of it: \<^verbatim>\<open>isinstance(True, int)\<close> holds and \<^verbatim>\<open>True == 1\<close>.
\<close>

datatype pyval =
    PyNone
  | PyBool bool
  | PyInt int
  | PyStr py_str
  | PyBytes py_bytes
  | PyType Type

text \<open>
  Exceptions as values. The first group is raised by Python itself, the second group
  lives in \<^verbatim>\<open>argon2.exceptions\<close>; \<open>InvalidParameterError\<close> is a name of the
  specification's taxonomy only.
\<close>

datatype error =
    TypeError
  | AttributeError
  | ValueError
  | LookupError
  | UnicodeEncodeError
  | UnicodeDecodeError
  | InvalidHashError
  | UnsupportedParamsError
  | VerifyMismatchError
  | VerificationError
  | HashingError
  | InvalidParameterError

section \<open>Codecs\<close>

text \<open>
  \<^verbatim>\<open>s.encode(encoding)\<close> consults the interpreter's codec registry, which is not part of
  the program: the registry is a parameter, from the encoding's name and the text to the
  bytes or the error raised.
\<close>

type_synonym codecs = "py_str \<Rightarrow> py_str \<Rightarrow> error + py_bytes"

text \<open>\<^verbatim>\<open>b.decode("ascii")\<close>: every byte must be below 128.\<close>

definition decode_ascii :: "py_bytes \<Rightarrow> error + py_str" where
  "decode_ascii b =
     (if list_all (\<lambda>c. (of_char c :: nat) < 128) b then Inr (map of_char b)
      else Inl UnicodeDecodeError)"

text \<open>
  \<^verbatim>\<open>
  def _ensure_bytes(s: bytes | str, encoding: str) -> bytes:
      if isinstance(s, bytes):
          return s
      return s.encode(encoding)
  \<close>
  A value that is neither \<^verbatim>\<open>bytes\<close> nor \<^verbatim>\<open>str\<close> has no usable \<^verbatim>\<open>encode\<close>.
\<close>

fun ensure_bytes :: "codecs \<Rightarrow> pyval \<Rightarrow> py_str \<Rightarrow> error + py_bytes" where
  "ensure_bytes cs (PyBytes b) encoding = Inr b"
| "ensure_bytes cs (PyStr s) encoding = cs encoding s"
| "ensure_bytes cs _ encoding = Inl AttributeError"

section \<open>Parameters and the hasher\<close>

text \<open>
  Modelled from the spec: the dataclass \<^verbatim>\<open>Parameters\<close> of \<^verbatim>\<open>argon2._utils\<close> is not among
  the sources. It is an immutable value with the seven fields below, and two values are
  equal iff every field matches.
\<close>

record Parameters =
  type :: Type
  version :: int
  salt_len :: int
  hash_len :: int
  time_cost :: int
  memory_cost :: int
  parallelism :: int

text \<open>\<^verbatim>\<open>__slots__ = ["_parameters", "encoding"]\<close>\<close>

record PasswordHasher =
  parameters :: Parameters
  encoding :: py_str

section \<open>The external primitive\<close>

text \<open>
  \<^verbatim>\<open>hash_secret\<close> and \<^verbatim>\<open>verify_secret\<close> of \<^verbatim>\<open>argon2.low_level\<close> wrap the Argon2 C library.
  They are parameters of the model. \<^verbatim>\<open>hash_secret\<close> takes its keyword arguments in the
  order of the call: secret, salt, time_cost, memory_cost, parallelism, hash_len, type.
\<close>

type_synonym hash_secret_fn =
  "py_bytes \<Rightarrow> py_bytes \<Rightarrow> int \<Rightarrow> int \<Rightarrow> int \<Rightarrow> int \<Rightarrow> Type \<Rightarrow> error + py_bytes"

type_synonym verify_secret_fn = "py_bytes \<Rightarrow> py_bytes \<Rightarrow> Type \<Rightarrow> error + bool"

section \<open>Verification\<close>

text \<open>
  \<^verbatim>\<open>
  _header_to_type: ClassVar[dict[bytes, Type]] = {
      b"$argon2i$": Type.I,
      b"$argon2d$": Type.D,
      b"$argon2id": Type.ID,
  }
  \<close>
\<close>

definition header_to_type :: "py_bytes \<rightharpoonup> Type" where
  "header_to_type = [''$argon2i$'' \<mapsto> I, ''$argon2d$'' \<mapsto> D, ''$argon2id'' \<mapsto> ID]"

text \<open>
  \<^verbatim>\<open>
  def verify(self, hash, password):
      hash = _ensure_bytes(hash, "ascii")
      try:
          hash_type = self._header_to_type[hash[:9]]
      except LookupError:
          raise InvalidHashError from None
      return verify_secret(hash, _ensure_bytes(password, self.encoding), hash_type)
  \<close>
  The password is coerced after the header has been looked up.
\<close>

definition verify ::
  "codecs \<Rightarrow> verify_secret_fn \<Rightarrow> PasswordHasher \<Rightarrow> pyval \<Rightarrow> pyval \<Rightarrow> error + bool" where
  "verify cs verify_secret self hash password =
     (case ensure_bytes cs hash (ustr ''ascii'') of
        Inl e \<Rightarrow> Inl e
      | Inr hash_bytes \<Rightarrow>
          (case header_to_type (take 9 hash_bytes) of
             None \<Rightarrow> Inl InvalidHashError
           | Some hash_type \<Rightarrow>
               (case ensure_bytes cs password (encoding self) of
                  Inl e \<Rightarrow> Inl e
                | Inr secret \<Rightarrow> verify_secret hash_bytes secret hash_type)))"

section \<open>Rehash check\<close>

text \<open>
  \<^verbatim>\<open>extract_parameters\<close> of \<^verbatim>\<open>argon2._utils\<close> is not among the sources: the decoder is
  a parameter. It receives whatever \<^verbatim>\<open>check_needs_rehash\<close> passes on, which is a \<^verbatim>\<open>str\<close>
  for every \<^verbatim>\<open>bytes\<close> or \<^verbatim>\<open>str\<close> argument.
\<close>

type_synonym extract_parameters_fn = "pyval \<Rightarrow> error + Parameters"

text \<open>
  \<^verbatim>\<open>
  def check_needs_rehash(self, hash: str | bytes) -> bool:
      if isinstance(hash, bytes):
          hash = hash.decode("ascii")
      return self._parameters != extract_parameters(hash)
  \<close>
\<close>

definition check_needs_rehash ::
  "extract_parameters_fn \<Rightarrow> PasswordHasher \<Rightarrow> pyval \<Rightarrow> error + bool" where
  "check_needs_rehash extract self hash =
     (case (case hash of PyBytes b \<Rightarrow> map_sum id PyStr (decode_ascii b) | _ \<Rightarrow> Inr hash) of
        Inl e \<Rightarrow> Inl e
      | Inr hash' \<Rightarrow>
          (case extract hash' of
             Inl e \<Rightarrow> Inl e
           | Inr decoded \<Rightarrow> Inr (parameters self \<noteq> decoded)))"

section \<open>Hashing\<close>

text \<open>
  The secure random source: the bytes the operating system is about to hand out, as a
  stream. \<^verbatim>\<open>os.urandom(n)\<close> returns the next \<open>n\<close> of them and rejects a negative \<open>n\<close>
  with \<^verbatim>\<open>ValueError\<close>. \<^verbatim>\<open>hash\<close> reads the source at most once.
\<close>

type_synonym entropy = "nat \<Rightarrow> char"

definition os_urandom :: "entropy \<Rightarrow> int \<Rightarrow> error + py_bytes" where
  "os_urandom ent n = (if n < 0 then Inl ValueError else Inr (map ent [0..<nat n]))"

text \<open>
  \<^verbatim>\<open>
  def hash(self, password: str | bytes, *, salt: bytes | None = None) -> str:
      return hash_secret(
          secret=_ensure_bytes(password, self.encoding),
          salt=salt or os.urandom(self.salt_len),
          time_cost=self.time_cost,
          memory_cost=self.memory_cost,
          parallelism=self.parallelism,
          hash_len=self.hash_len,
          type=self.type,
      ).decode("ascii")
  \<close>
  The arguments are evaluated from left to right, so the password is coerced before the
  random source is read. \<^verbatim>\<open>salt or ...\<close> tests the truth value of \<^verbatim>\<open>salt\<close>: both \<^verbatim>\<open>None\<close>
  and \<^verbatim>\<open>b""\<close> are false.
\<close>

definition hash ::
  "codecs \<Rightarrow> hash_secret_fn \<Rightarrow> entropy \<Rightarrow> PasswordHasher \<Rightarrow> pyval \<Rightarrow> py_bytes option
     \<Rightarrow> error + py_str" where
  "hash cs hash_secret ent self password salt =
     (case ensure_bytes cs password (encoding self) of
        Inl e \<Rightarrow> Inl e
      | Inr secret \<Rightarrow>
          (case (case salt of
                   Some (b # bs) \<Rightarrow> Inr (b # bs)
                 | _ \<Rightarrow> os_urandom ent (salt_len (parameters self))) of
             Inl e \<Rightarrow> Inl e
           | Inr salt' \<Rightarrow>
               (case hash_secret secret salt'
                       (time_cost (parameters self))
                       (memory_cost (parameters self))
                       (parallelism (parameters self))
                       (hash_len (parameters self))
                       (type (parameters self)) of
                  Inl e \<Rightarrow> Inl e
                | Inr encoded \<Rightarrow> decode_ascii encoded)))"

section \<open>Construction\<close>

text \<open>
  \<^verbatim>\<open>
  def is_wasm() -> bool:
      return sys.platform == "emscripten" or platform.machine() in [
          "wasm32",
          "wasm64",
      ]
  \<close>
  What the function reads is the runtime: \<^verbatim>\<open>sys.platform\<close> and \<^verbatim>\<open>platform.machine()\<close>.
  It is called anew at every construction, and once when the module is imported.
\<close>

record runtime =
  sys_platform :: py_str
  machine :: py_str

definition is_wasm :: "runtime \<Rightarrow> bool" where
  "is_wasm rt =
     (sys_platform rt = ustr ''emscripten''
      \<or> machine rt \<in> set [ustr ''wasm32'', ustr ''wasm64''])"

text \<open>
  \<^verbatim>\<open>DEFAULT_PARALLELISM = 1 if is_wasm() else RFC_9106_LOW_MEMORY.parallelism\<close>

  Evaluated when the module is imported, in the runtime \<open>rt0\<close> of that moment. The
  profile \<^verbatim>\<open>RFC_9106_LOW_MEMORY\<close> of \<^verbatim>\<open>argon2.profiles\<close> is not among the sources: it is
  a parameter.
\<close>

definition DEFAULT_PARALLELISM :: "runtime \<Rightarrow> Parameters \<Rightarrow> int" where
  "DEFAULT_PARALLELISM rt0 RFC_9106_LOW_MEMORY =
     (if is_wasm rt0 then 1 else parallelism RFC_9106_LOW_MEMORY)"

text \<open>The classes the constructor checks its arguments against.\<close>

datatype py_class = Int_class | Str_class | Type_class

fun isinstance :: "pyval \<Rightarrow> py_class \<Rightarrow> bool" where
  "isinstance (PyInt _) Int_class = True"
| "isinstance (PyBool _) Int_class = True"
| "isinstance (PyStr _) Str_class = True"
| "isinstance (PyType _) Type_class = True"
| "isinstance _ _ = False"

text \<open>
  Modelled from the spec: \<^verbatim>\<open>_check_types\<close> of \<^verbatim>\<open>argon2._utils\<close> is not among the sources.
  The constructor "validates types" and fails "on wrong type": the check reports the
  arguments whose value is not an instance of the class required of them, here by their
  names, and reports nothing (a false value) when there is none.
\<close>

definition check_types :: "(string \<times> pyval \<times> py_class) list \<Rightarrow> string list" where
  "check_types kw = map fst (filter (\<lambda>(name, val, cls). \<not> isinstance val cls) kw)"

text \<open>Reading a checked argument; the last equation of each is never reached after the check.\<close>

fun the_int :: "pyval \<Rightarrow> int" where
  "the_int (PyInt i) = i"
| "the_int (PyBool b) = (if b then 1 else 0)"
| "the_int _ = 0"

fun the_str :: "pyval \<Rightarrow> py_str" where
  "the_str (PyStr s) = s"
| "the_str _ = []"

fun the_Type :: "pyval \<Rightarrow> Type" where
  "the_Type (PyType t) = t"
| "the_Type _ = ID"

text \<open>
  \<^verbatim>\<open>
  def __init__(self, time_cost, memory_cost, parallelism, hash_len, salt_len,
               encoding, type):
      e = _check_types(
          time_cost=(time_cost, int),
          memory_cost=(memory_cost, int),
          parallelism=(parallelism, int),
          hash_len=(hash_len, int),
          salt_len=(salt_len, int),
          encoding=(encoding, str),
          type=(type, Type),
      )
      if e:
          raise TypeError(e)
      params = Parameters(type=type, version=19, salt_len=salt_len, hash_len=hash_len,
                          time_cost=time_cost, memory_cost=memory_cost,
                          parallelism=parallelism)
      if is_wasm() and parallelism != 1:
          raise UnsupportedParamsError
      self._parameters = params
      self.encoding = encoding
  \<close>
\<close>

definition PasswordHasher_init ::
  "runtime \<Rightarrow> pyval \<Rightarrow> pyval \<Rightarrow> pyval \<Rightarrow> pyval \<Rightarrow> pyval \<Rightarrow> pyval \<Rightarrow> pyval
     \<Rightarrow> error + PasswordHasher" where
  "PasswordHasher_init rt tc mc p hl sl enc ty =
     (let e = check_types
                [(''time_cost'', tc, Int_class),
                 (''memory_cost'', mc, Int_class),
                 (''parallelism'', p, Int_class),
                 (''hash_len'', hl, Int_class),
                 (''salt_len'', sl, Int_class),
                 (''encoding'', enc, Str_class),
                 (''type'', ty, Type_class)]
      in if e \<noteq> [] then Inl TypeError
         else
           let params = \<lparr>type = the_Type ty, version = 19, salt_len = the_int sl,
                         hash_len = the_int hl, time_cost = the_int tc,
                         memory_cost = the_int mc, parallelism = the_int p\<rparr>
           in if is_wasm rt \<and> the_int p \<noteq> 1 then Inl UnsupportedParamsError
              else Inr \<lparr>parameters = params, encoding = the_str enc\<rparr>)"

text \<open>
  \<^verbatim>\<open>cls()\<close>: the constructor with every default, the numbers taken from the profile when
  the module was imported (in runtime \<open>rt0\<close>), the construction itself in runtime \<open>rt\<close>.
\<close>

definition PasswordHasher_default :: "runtime \<Rightarrow> runtime \<Rightarrow> Parameters \<Rightarrow> error + PasswordHasher" where
  "PasswordHasher_default rt0 rt RFC_9106_LOW_MEMORY =
     PasswordHasher_init rt
       (PyInt (time_cost RFC_9106_LOW_MEMORY))
       (PyInt (memory_cost RFC_9106_LOW_MEMORY))
       (PyInt (DEFAULT_PARALLELISM rt0 RFC_9106_LOW_MEMORY))
       (PyInt (hash_len RFC_9106_LOW_MEMORY))
       (PyInt (salt_len RFC_9106_LOW_MEMORY))
       (PyStr (ustr ''utf-8''))
       (PyType ID)"

text \<open>
  \<^verbatim>\<open>
  @classmethod
  def from_parameters(cls, params: Parameters) -> PasswordHasher:
      if is_wasm() and params.parallelism != 1:
          raise UnsupportedParamsError
      ph = cls()
      ph._parameters = params
      return ph
  \<close>
\<close>

definition from_parameters ::
  "runtime \<Rightarrow> runtime \<Rightarrow> Parameters \<Rightarrow> Parameters \<Rightarrow> error + PasswordHasher" where
  "from_parameters rt0 rt RFC_9106_LOW_MEMORY params =
     (if is_wasm rt \<and> parallelism params \<noteq> 1 then Inl UnsupportedParamsError
      else
        (case PasswordHasher_default rt0 rt RFC_9106_LOW_MEMORY of
           Inl e \<Rightarrow> Inl e
         | Inr ph \<Rightarrow> Inr (ph\<lparr>parameters := params\<rparr>)))"

section \<open>Collaborators, for running the model\<close>

text \<open>
  The theorems below hold for every codec registry, primitive, decoder, random source,
  runtime and profile. The definitions of this section are instances of them, on which
  the model is run at concrete inputs.
\<close>

subsection \<open>A codec registry\<close>

text \<open>Python's \<^verbatim>\<open>ascii\<close> and \<^verbatim>\<open>utf-8\<close> encoders; every other name is unknown to this registry.\<close>

definition encode_ascii :: "py_str \<Rightarrow> error + py_bytes" where
  "encode_ascii s =
     (if list_all (\<lambda>c. c < 128) s then Inr (map char_of s) else Inl UnicodeEncodeError)"

fun utf8_bytes :: "nat \<Rightarrow> py_bytes option" where
  "utf8_bytes c =
     (if c < 0x80 then Some [char_of c]
      else if c < 0x800 then Some [char_of (0xC0 + c div 64), char_of (0x80 + c mod 64)]
      else if 0xD800 \<le> c \<and> c < 0xE000 then None
      else if c < 0x10000 then
        Some [char_of (0xE0 + c div 4096), char_of (0x80 + c div 64 mod 64),
              char_of (0x80 + c mod 64)]
      else if c < 0x110000 then
        Some [char_of (0xF0 + c div 262144), char_of (0x80 + c div 4096 mod 64),
              char_of (0x80 + c div 64 mod 64), char_of (0x80 + c mod 64)]
      else None)"

definition encode_utf8 :: "py_str \<Rightarrow> error + py_bytes" where
  "encode_utf8 s =
     (if list_all (\<lambda>c. utf8_bytes c \<noteq> None) s then Inr (concat (map (the \<circ> utf8_bytes) s))
      else Inl UnicodeEncodeError)"

definition py_codecs :: codecs where
  "py_codecs name s =
     (if name = ustr ''ascii'' then encode_ascii s
      else if name = ustr ''utf-8'' then encode_utf8 s
      else Inl LookupError)"

subsection \<open>The encoded-hash codec\<close>

text \<open>
  Modelled from the spec: the codec of \<^verbatim>\<open>argon2._utils\<close> (\<^verbatim>\<open>extract_parameters\<close>) and of
  the C library are not among the sources. The format is
  \<^verbatim>\<open>$argon2<variant>$v=<version>$m=<memory_cost>,t=<time_cost>,p=<parallelism>$<salt>$<hash>\<close>
  with \<^verbatim>\<open><variant>\<close> one of \<^verbatim>\<open>i\<close>, \<^verbatim>\<open>d\<close>, \<^verbatim>\<open>id\<close> and both byte fields in base64, standard
  alphabet, no padding. Decoding is strict: it fails with \<open>InvalidHashError\<close> when the
  variant token is unrecognized, a segment is missing or out of order, a numeric field is
  not a number or is below 1, or a base64 segment has a character outside the alphabet.
  The salt's length is implicit in the encoded salt.
\<close>

text \<open>\<^verbatim>\<open>text.split(sep)\<close>, from the right: \<open>attach\<close> puts one more character in front.\<close>

definition attach :: "char \<Rightarrow> char \<Rightarrow> string list \<Rightarrow> string list" where
  "attach sep c segs =
     (if c = sep then [] # segs
      else (case segs of [] \<Rightarrow> [[c]] | seg # rest \<Rightarrow> (c # seg) # rest))"

fun split_on :: "char \<Rightarrow> string \<Rightarrow> string list" where
  "split_on sep [] = [[]]"
| "split_on sep (c # cs) = attach sep c (split_on sep cs)"

definition decimal :: "string \<Rightarrow> int option" where
  "decimal s =
     (if s \<noteq> [] \<and> list_all (\<lambda>c. 48 \<le> (of_char c :: nat) \<and> (of_char c :: nat) \<le> 57) s
      then Some (int (foldl (\<lambda>n c. 10 * n + (of_char c - 48)) 0 s))
      else None)"

fun render :: "nat \<Rightarrow> string" where
  "render n =
     (if n < 10 then [char_of (48 + n)] else render (n div 10) @ [char_of (48 + n mod 10)])"

definition field :: "string \<Rightarrow> string \<Rightarrow> int option" where
  "field key seg =
     (if take (length key + 1) seg = key @ ''='' then decimal (drop (length key + 1) seg)
      else None)"

definition b64_alphabet :: string where
  "b64_alphabet = ''ABCDEFGHIJKLMNOPQRSTUVWXYZabcdefghijklmnopqrstuvwxyz0123456789+/''"

fun b64_digits :: "nat list \<Rightarrow> nat list" where
  "b64_digits (a # b # c # r) =
     [a div 4, a mod 4 * 16 + b div 16, b mod 16 * 4 + c div 64, c mod 64] @ b64_digits r"
| "b64_digits [a, b] = [a div 4, a mod 4 * 16 + b div 16, b mod 16 * 4]"
| "b64_digits [a] = [a div 4, a mod 4 * 16]"
| "b64_digits [] = []"

definition b64encode :: "py_bytes \<Rightarrow> string" where
  "b64encode b = map (\<lambda>d. b64_alphabet ! d) (b64_digits (map of_char b))"

fun b64_octets :: "nat list \<Rightarrow> nat list" where
  "b64_octets (a # b # c # d # r) =
     [a * 4 + b div 16, b mod 16 * 16 + c div 4, c mod 4 * 64 + d] @ b64_octets r"
| "b64_octets [a, b, c] = [a * 4 + b div 16, b mod 16 * 16 + c div 4]"
| "b64_octets [a, b] = [a * 4 + b div 16]"
| "b64_octets _ = []"

fun index_of :: "'a \<Rightarrow> 'a list \<Rightarrow> nat option" where
  "index_of x [] = None"
| "index_of x (y # ys) = (if x = y then Some 0 else map_option Suc (index_of x ys))"

definition b64decode :: "string \<Rightarrow> py_bytes option" where
  "b64decode s =
     (if list_all (\<lambda>c. c \<in> set b64_alphabet) s
      then Some (map char_of (b64_octets (map (\<lambda>c. the (index_of c b64_alphabet)) s)))
      else None)"

definition variant_token :: "Type \<Rightarrow> string" where
  "variant_token t = (case t of I \<Rightarrow> ''i'' | D \<Rightarrow> ''d'' | ID \<Rightarrow> ''id'')"

definition token_variant :: "string \<rightharpoonup> Type" where
  "token_variant = [''argon2i'' \<mapsto> I, ''argon2d'' \<mapsto> D, ''argon2id'' \<mapsto> ID]"

definition encode :: "Parameters \<Rightarrow> py_bytes \<Rightarrow> py_bytes \<Rightarrow> string" where
  "encode P salt raw =
     ''$argon2'' @ variant_token (type P)
     @ ''$v='' @ render (nat (version P))
     @ ''$m='' @ render (nat (memory_cost P))
     @ '',t='' @ render (nat (time_cost P))
     @ '',p='' @ render (nat (parallelism P))
     @ ''$'' @ b64encode salt @ ''$'' @ b64encode raw"

definition decode :: "string \<Rightarrow> error + Parameters \<times> py_bytes \<times> py_bytes" where
  "decode text =
     (case split_on CHR ''$'' text of
        [lead, variant, v, costs, salt, digest] \<Rightarrow>
          (case split_on CHR '','' costs of
             [m, t, p] \<Rightarrow>
               (case (token_variant variant, field ''v'' v, field ''m'' m, field ''t'' t,
                      field ''p'' p, b64decode salt, b64decode digest) of
                  (Some ty, Some ver, Some mc, Some tc, Some par, Some s, Some raw) \<Rightarrow>
                    if lead = [] \<and> 1 \<le> mc \<and> 1 \<le> tc \<and> 1 \<le> par
                    then Inr (\<lparr>type = ty, version = ver, salt_len = int (length s),
                               hash_len = int (length raw), time_cost = tc, memory_cost = mc,
                               parallelism = par\<rparr>, s, raw)
                    else Inl InvalidHashError
                | _ \<Rightarrow> Inl InvalidHashError)
           | _ \<Rightarrow> Inl InvalidHashError)
      | _ \<Rightarrow> Inl InvalidHashError)"

text \<open>
  Modelled from the spec: \<^verbatim>\<open>extract_parameters\<close> of \<^verbatim>\<open>argon2._utils\<close>, the decoder applied
  to a text and reduced to the parameters. The spec defines it on text only.
\<close>

definition extract_parameters :: extract_parameters_fn where
  "extract_parameters h =
     (case h of
        PyStr s \<Rightarrow>
          (case encode_ascii s of
             Inl e \<Rightarrow> Inl InvalidHashError
           | Inr text \<Rightarrow> map_sum id fst (decode text))
      | _ \<Rightarrow> Inl TypeError)"

subsection \<open>A primitive\<close>

text \<open>
  Modelled from the spec: \<^verbatim>\<open>hash_secret\<close> and \<^verbatim>\<open>verify_secret\<close> of \<^verbatim>\<open>argon2.low_level\<close> are
  not among the sources, and the Argon2 computation is opaque. The spec gives their
  interface: \<^verbatim>\<open>compute(password_bytes, salt_bytes, Parameters) -> encoded_text |
  fails(HashingError)\<close> and \<^verbatim>\<open>verify(encoded_text, password_bytes, variant) -> true |
  fails(VerifyMismatchError | VerificationError)\<close>, the first failure for a well-formed hash
  and a wrong password, the second for every other failure, such as a structure that the
  primitive's own decoding rejects. What \<^verbatim>\<open>verify_secret\<close> can return is stated as a
  predicate; the two primitives below follow the interface, with \<open>mix\<close> in the place of
  the memory-hard function.
\<close>

definition verify_secret_contract :: "verify_secret_fn \<Rightarrow> bool" where
  "verify_secret_contract verify_secret =
     (\<forall>encoded secret ty.
        verify_secret encoded secret ty
          \<in> {Inr True, Inl VerifyMismatchError, Inl VerificationError})"

definition mix :: "py_bytes \<Rightarrow> py_bytes \<Rightarrow> nat \<Rightarrow> py_bytes" where
  "mix secret salt n = map (\<lambda>i. (salt @ secret) ! (i mod length (salt @ secret))) [0..<n]"

definition sample_hash_secret :: hash_secret_fn where
  "sample_hash_secret secret salt tc mc p hl ty =
     (if salt = [] \<or> tc < 1 \<or> mc < 1 \<or> p < 1 \<or> hl < 1 then Inl HashingError
      else Inr (encode \<lparr>type = ty, version = 19, salt_len = int (length salt), hash_len = hl,
                        time_cost = tc, memory_cost = mc, parallelism = p\<rparr>
                  salt (mix secret salt (nat hl))))"

definition sample_verify_secret :: verify_secret_fn where
  "sample_verify_secret encoded secret ty =
     (case decode encoded of
        Inl e \<Rightarrow> Inl VerificationError
      | Inr (P, salt, raw) \<Rightarrow>
          if salt = [] \<or> type P \<noteq> ty then Inl VerificationError
          else if mix secret salt (length raw) = raw then Inr True
          else Inl VerifyMismatchError)"

subsection \<open>A random source, two runtimes, the profile\<close>

definition counter :: entropy where
  "counter i = char_of (7 * i + 3)"

definition linux :: runtime where
  "linux = \<lparr>sys_platform = ustr ''linux'', machine = ustr ''x86_64''\<rparr>"

definition emscripten :: runtime where
  "emscripten = \<lparr>sys_platform = ustr ''emscripten'', machine = ustr ''wasm32''\<rparr>"

text \<open>The numbers of the spec's scenario.\<close>

definition low_memory :: Parameters where
  "low_memory = \<lparr>type = ID, version = 19, salt_len = 16, hash_len = 32, time_cost = 3,
                  memory_cost = 65536, parallelism = 4\<rparr>"

text \<open>The salt that \<open>counter\<close> yields, and the hash of the scenario's password with it.\<close>

abbreviation scenario_salt :: py_bytes where
  "scenario_salt \<equiv>
     [CHR 0x03, CHR 0x0A, CHR 0x11, CHR 0x18, CHR 0x1F, CHR ''&'', CHR ''-'', CHR ''4'',
      CHR '';'', CHR ''B'', CHR ''I'', CHR ''P'', CHR ''W'', CHR ''^'', CHR ''e'', CHR ''l'']"

abbreviation scenario_hash :: string where
  "scenario_hash \<equiv>
     ''$argon2id$v=19$m=65536,t=3,p=4$AwoRGB8mLTQ7QklQV15lbA$AwoRGB8mLTQ7QklQV15lbGNvcnJlY3QgYmF0dGVyeSA''"

section \<open>Auxiliary facts\<close>

lemma ustr_eq_iff [simp]: "ustr a = ustr b \<longleftrightarrow> a = b"
  by (simp add: ustr_def inj_map_eq_map [OF inj_of_char])

lemma header_to_type_cases:
  "header_to_type k =
     (if k = ''$argon2id'' then Some ID else if k = ''$argon2d$'' then Some D
      else if k = ''$argon2i$'' then Some I else None)"
  by (simp add: header_to_type_def)

lemma Parameters_neq_iff:
  "(P \<noteq> (Q :: Parameters)) =
     (type P \<noteq> type Q \<or> version P \<noteq> version Q \<or> salt_len P \<noteq> salt_len Q
      \<or> hash_len P \<noteq> hash_len Q \<or> time_cost P \<noteq> time_cost Q
      \<or> memory_cost P \<noteq> memory_cost Q \<or> parallelism P \<noteq> parallelism Q)"
  by (cases P, cases Q) auto

lemma check_needs_rehash_text:
  "check_needs_rehash ep self (PyStr s) =
     (case ep (PyStr s) of Inl e \<Rightarrow> Inl e | Inr decoded \<Rightarrow> Inr (parameters self \<noteq> decoded))"
  by (simp add: check_needs_rehash_def)

lemma check_needs_rehash_bytes:
  "decode_ascii b = Inr s \<Longrightarrow>
   check_needs_rehash ep self (PyBytes b) = check_needs_rehash ep self (PyStr s)"
  by (simp add: check_needs_rehash_def)

lemma is_wasm_emscripten: "is_wasm emscripten"
  by (simp add: is_wasm_def emscripten_def)

lemma not_is_wasm_linux: "\<not> is_wasm linux"
  by (simp add: is_wasm_def linux_def)

lemma check_types_empty_iff:
  "check_types [(n1, tc, Int_class), (n2, mc, Int_class), (n3, p, Int_class),
                (n4, hl, Int_class), (n5, sl, Int_class), (n6, enc, Str_class),
                (n7, ty, Type_class)] = [] \<longleftrightarrow>
   isinstance tc Int_class \<and> isinstance mc Int_class \<and> isinstance p Int_class
   \<and> isinstance hl Int_class \<and> isinstance sl Int_class \<and> isinstance enc Str_class
   \<and> isinstance ty Type_class"
  by (simp add: check_types_def)

lemma PasswordHasher_default_eq:
  "PasswordHasher_default rt_import rt RFC =
     (if is_wasm rt \<and> DEFAULT_PARALLELISM rt_import RFC \<noteq> 1 then Inl UnsupportedParamsError
      else Inr \<lparr>parameters =
                  \<lparr>type = ID, version = 19, salt_len = salt_len RFC, hash_len = hash_len RFC,
                   time_cost = time_cost RFC, memory_cost = memory_cost RFC,
                   parallelism = DEFAULT_PARALLELISM rt_import RFC\<rparr>,
                encoding = ustr ''utf-8''\<rparr>)"
  by (simp add: PasswordHasher_default_def PasswordHasher_init_def check_types_def)

text \<open>
  When the runtime turns constrained after the module was imported in a normal one (as
  when a test injects the platform), the default parallelism is still the profile's, and
  \<open>from_parameters\<close> fails in \<^verbatim>\<open>cls()\<close> whatever the parameters it was given.
\<close>

lemma from_parameters_runtime_switched:
  assumes "\<not> is_wasm rt_import" and "is_wasm rt" and "parallelism RFC \<noteq> 1"
  shows "from_parameters rt_import rt RFC params = Inl UnsupportedParamsError"
  using assms
  by (simp add: from_parameters_def PasswordHasher_default_eq DEFAULT_PARALLELISM_def)

text \<open>The sample primitive and the codecs on a hash cut off after its parameters.\<close>

lemma sample_verify_secret_contract: "verify_secret_contract sample_verify_secret"
  by (auto simp: verify_secret_contract_def sample_verify_secret_def split: sum.splits)

lemma ascii_truncated:
  "py_codecs (ustr ''ascii'') (ustr ''$argon2id$v=19$m=65536,t=3,p=4$'')
   = Inr ''$argon2id$v=19$m=65536,t=3,p=4$''"
  by code_simp

lemma ascii_bcrypt:
  "py_codecs (ustr ''ascii'') (ustr ''$bcrypt$2b$12$abcdefghijklmnopqrstuv'')
   = Inr ''$bcrypt$2b$12$abcdefghijklmnopqrstuv''"
  by code_simp

lemma utf8_pw: "py_codecs (ustr ''utf-8'') (ustr ''pw'') = Inr ''pw''"
  by code_simp

lemma decode_truncated: "decode ''$argon2id$v=19$m=65536,t=3,p=4$'' = Inl InvalidHashError"
proof -
  have s: "split_on CHR ''$'' ''$argon2id$v=19$m=65536,t=3,p=4$'' =
             [[], ''argon2id'', ''v=19'', ''m=65536,t=3,p=4'', []]"
    by code_simp
  show ?thesis
    unfolding decode_def s by simp
qed

lemma sample_verify_secret_truncated:
  "sample_verify_secret ''$argon2id$v=19$m=65536,t=3,p=4$'' ''pw'' ID = Inl VerificationError"
  by (simp add: sample_verify_secret_def decode_truncated)

lemma extract_parameters_truncated:
  "extract_parameters (PyStr (ustr ''$argon2id$v=19$m=65536,t=3,p=4$'')) = Inl InvalidHashError"
proof -
  have "encode_ascii (ustr ''$argon2id$v=19$m=65536,t=3,p=4$'')
          = Inr ''$argon2id$v=19$m=65536,t=3,p=4$''"
    by code_simp
  then show ?thesis
    by (simp add: extract_parameters_def decode_truncated)
qed

lemma verify_truncated_hash:
  "verify py_codecs sample_verify_secret \<lparr>parameters = low_memory, encoding = ustr ''utf-8''\<rparr>
     (PyStr (ustr ''$argon2id$v=19$m=65536,t=3,p=4$'')) (PyStr (ustr ''pw''))
   = Inl VerificationError"
  by (simp add: verify_def header_to_type_cases ascii_truncated utf8_pw
      sample_verify_secret_truncated)

text \<open>The codecs and the sample primitive on the scenario, step by step.\<close>

lemma decode_ascii_ustr:
  "list_all (\<lambda>c. (of_char c :: nat) < 128) b \<Longrightarrow> decode_ascii b = Inr (ustr b)"
  by (simp add: decode_ascii_def ustr_def)

lemma utf8_scenario_password:
  "py_codecs (ustr ''utf-8'') (ustr ''correct battery horse'') = Inr ''correct battery horse''"
  by code_simp

lemma ascii_scenario_hash: "py_codecs (ustr ''ascii'') (ustr scenario_hash) = Inr scenario_hash"
  by code_simp

lemma os_urandom_counter: "os_urandom counter 16 = Inr scenario_salt"
  by (simp add: os_urandom_def counter_def upt_rec char_of_eq_iff)

lemma mix_scenario:
  "mix ''correct battery horse'' scenario_salt 32 = scenario_salt @ ''correct battery ''"
  by (simp add: mix_def upt_rec nth_Cons')

lemma mix_wrong:
  "mix ''wrong'' scenario_salt 32 \<noteq> scenario_salt @ ''correct battery ''"
  by (simp add: mix_def upt_rec nth_Cons')

lemma render_scenario:
  "render 19 = ''19''" "render 65536 = ''65536''" "render 3 = ''3''" "render 4 = ''4''"
  by (simp_all add: char_of_eq_iff)

lemma b64encode_scenario:
  "b64encode scenario_salt = ''AwoRGB8mLTQ7QklQV15lbA''"
  "b64encode (scenario_salt @ ''correct battery '')
     = ''AwoRGB8mLTQ7QklQV15lbGNvcnJlY3QgYmF0dGVyeSA''"
  by code_simp+

lemma b64decode_scenario:
  "b64decode ''AwoRGB8mLTQ7QklQV15lbA'' = Some scenario_salt"
  "b64decode ''AwoRGB8mLTQ7QklQV15lbGNvcnJlY3QgYmF0dGVyeSA''
     = Some (scenario_salt @ ''correct battery '')"
  by code_simp+

lemma sample_hash_secret_scenario:
  "sample_hash_secret ''correct battery horse'' scenario_salt 3 65536 4 32 ID
   = Inr scenario_hash"
  using b64encode_scenario
  by (simp add: sample_hash_secret_def encode_def variant_token_def render_scenario
      mix_scenario del: render.simps)

lemma decode_scenario:
  "decode scenario_hash = Inr (low_memory, scenario_salt, scenario_salt @ ''correct battery '')"
proof -
  have s: "split_on CHR ''$'' scenario_hash =
             [[], ''argon2id'', ''v=19'', ''m=65536,t=3,p=4'', ''AwoRGB8mLTQ7QklQV15lbA'',
              ''AwoRGB8mLTQ7QklQV15lbGNvcnJlY3QgYmF0dGVyeSA'']"
    by code_simp
  have c: "split_on CHR '','' ''m=65536,t=3,p=4'' = [''m=65536'', ''t=3'', ''p=4'']"
    by code_simp
  have f: "token_variant ''argon2id'' = Some ID" "field ''v'' ''v=19'' = Some 19"
    "field ''m'' ''m=65536'' = Some 65536" "field ''t'' ''t=3'' = Some 3"
    "field ''p'' ''p=4'' = Some 4"
    by (simp_all add: token_variant_def field_def decimal_def)
  show ?thesis
    unfolding decode_def s using b64decode_scenario
    by (simp add: c f low_memory_def del: split_on.simps)
qed

lemma extract_parameters_scenario:
  "extract_parameters (PyStr (ustr scenario_hash)) = Inr low_memory"
proof -
  have "encode_ascii (ustr scenario_hash) = Inr scenario_hash"
    by code_simp
  then show ?thesis
    by (simp add: extract_parameters_def decode_scenario)
qed

lemma sample_verify_secret_scenario:
  "sample_verify_secret scenario_hash ''correct battery horse'' ID = Inr True"
  "sample_verify_secret scenario_hash ''wrong'' ID = Inl VerifyMismatchError"
proof -
  have len: "length (scenario_salt @ ''correct battery '') = 32"
    by simp
  have m1: "mix ''correct battery horse'' scenario_salt
              (length (scenario_salt @ ''correct battery ''))
            = scenario_salt @ ''correct battery ''"
    unfolding len by (rule mix_scenario)
  have m2: "mix ''wrong'' scenario_salt (length (scenario_salt @ ''correct battery ''))
            \<noteq> scenario_salt @ ''correct battery ''"
    unfolding len by (rule mix_wrong)
  show "sample_verify_secret scenario_hash ''correct battery horse'' ID = Inr True"
    using m1 by (simp add: sample_verify_secret_def decode_scenario low_memory_def)
  show "sample_verify_secret scenario_hash ''wrong'' ID = Inl VerifyMismatchError"
    using m2 by (simp add: sample_verify_secret_def decode_scenario low_memory_def)
qed

lemma decode_ascii_scenario_hash: "decode_ascii scenario_hash = Inr (ustr scenario_hash)"
  by (rule decode_ascii_ustr) code_simp

text \<open>Every failure of the decoder is \<open>InvalidHashError\<close>; two ways of being malformed.\<close>

lemma decode_error: "decode text = Inl e \<Longrightarrow> e = InvalidHashError"
  by (auto simp: decode_def split: list.splits option.splits if_splits)

lemma extract_parameters_error:
  assumes "extract_parameters (PyStr s) = Inl e"
  shows "e = InvalidHashError"
proof (cases "encode_ascii s")
  case (Inl x)
  with assms show ?thesis
    by (simp add: extract_parameters_def)
next
  case (Inr bs)
  with assms have "decode bs = Inl e"
    by (cases "decode bs") (simp_all add: extract_parameters_def)
  then show ?thesis
    by (rule decode_error)
qed

lemma decode_segments:
  "length (split_on CHR ''$'' text) \<noteq> 6 \<Longrightarrow> decode text = Inl InvalidHashError"
  by (auto simp: decode_def split: list.splits)

lemma decode_variant:
  "token_variant (split_on CHR ''$'' text ! 1) = None \<Longrightarrow> decode text = Inl InvalidHashError"
  by (auto simp: decode_def split: list.splits)

lemma extract_parameters_malformed:
  assumes "encode_ascii s = Inr bs"
    and "length (split_on CHR ''$'' bs) \<noteq> 6
         \<or> token_variant (split_on CHR ''$'' bs ! 1) = None"
  shows "extract_parameters (PyStr s) = Inl InvalidHashError"
  using assms by (auto simp: extract_parameters_def decode_segments decode_variant)

text \<open>More closed facts about the codecs and the decoder.\<close>

lemma ascii_euro: "py_codecs (ustr ''ascii'') (ustr ''$bcrypt$'' @ [8364]) = Inl UnicodeEncodeError"
  by code_simp

lemma ascii_cafe: "py_codecs (ustr ''ascii'') (ustr ''caf'' @ [233]) = Inl UnicodeEncodeError"
  by code_simp

lemma encode_ascii_truncated:
  "encode_ascii (ustr ''$argon2id$v=19$m=65536,t=3,p=4$'') = Inr ''$argon2id$v=19$m=65536,t=3,p=4$''"
  by code_simp

lemma split_truncated:
  "split_on CHR ''$'' ''$argon2id$v=19$m=65536,t=3,p=4$''
   = [[], ''argon2id'', ''v=19'', ''m=65536,t=3,p=4'', []]"
  by code_simp

lemma bcrypt_six_segments:
  "decode_ascii ''$bcrypt$v=19$m=65536,t=3,p=4$AwoR$AwoR''
   = Inr (ustr ''$bcrypt$v=19$m=65536,t=3,p=4$AwoR$AwoR'')"
  "encode_ascii (ustr ''$bcrypt$v=19$m=65536,t=3,p=4$AwoR$AwoR'')
   = Inr ''$bcrypt$v=19$m=65536,t=3,p=4$AwoR$AwoR''"
  "split_on CHR ''$'' ''$bcrypt$v=19$m=65536,t=3,p=4$AwoR$AwoR''
   = [[], ''bcrypt'', ''v=19'', ''m=65536,t=3,p=4'', ''AwoR'', ''AwoR'']"
  "token_variant ''bcrypt'' = None"
  by (rule decode_ascii_ustr, code_simp, code_simp, code_simp, simp add: token_variant_def)

text \<open>
  In a process whose runtime is of the same kind at the call as at import,
  \<open>from_parameters\<close> applies the platform rule to the given parameters and nothing else.
\<close>

lemma from_parameters_same_runtime:
  assumes "is_wasm rt_import = is_wasm rt"
  shows "(is_wasm rt \<and> parallelism params \<noteq> 1 \<longrightarrow>
            from_parameters rt_import rt RFC params = Inl UnsupportedParamsError)
       \<and> (\<not> (is_wasm rt \<and> parallelism params \<noteq> 1) \<longrightarrow>
            (\<exists>ph. from_parameters rt_import rt RFC params = Inr ph \<and> parameters ph = params))"
  using assms
  by (auto simp: from_parameters_def PasswordHasher_default_eq DEFAULT_PARALLELISM_def)

section \<open>The rehash check\<close>

text \<open>
  C1. For every hasher and every hash that the decoder accepts, given as text or as ASCII
  bytes, \<open>check_needs_rehash\<close> returns whether the decoded parameters differ from the
  hasher's own, and they differ exactly when some one of the seven fields differs. It
  returns false when the hash decodes to the hasher's current parameters, and true for
  the hasher obtained from that one by changing any single field.
\<close>

theorem check_needs_rehash_iff_parameters_differ:
  assumes "h = PyStr s \<or> (\<exists>b. h = PyBytes b \<and> decode_ascii b = Inr s)"
    and "ep (PyStr s) = Inr decoded"
  shows "check_needs_rehash ep self h = Inr (parameters self \<noteq> decoded)
       \<and> (parameters self \<noteq> decoded) =
           (type (parameters self) \<noteq> type decoded
            \<or> version (parameters self) \<noteq> version decoded
            \<or> salt_len (parameters self) \<noteq> salt_len decoded
            \<or> hash_len (parameters self) \<noteq> hash_len decoded
            \<or> time_cost (parameters self) \<noteq> time_cost decoded
            \<or> memory_cost (parameters self) \<noteq> memory_cost decoded
            \<or> parallelism (parameters self) \<noteq> parallelism decoded)
       \<and> (parameters self = decoded \<longrightarrow>
            check_needs_rehash ep self h = Inr False
          \<and> (\<forall>x. x \<noteq> type (parameters self) \<longrightarrow>
               check_needs_rehash ep
                 (self\<lparr>parameters := (parameters self)\<lparr>type := x\<rparr>\<rparr>) h = Inr True)
          \<and> (\<forall>x. x \<noteq> version (parameters self) \<longrightarrow>
               check_needs_rehash ep
                 (self\<lparr>parameters := (parameters self)\<lparr>version := x\<rparr>\<rparr>) h = Inr True)
          \<and> (\<forall>x. x \<noteq> salt_len (parameters self) \<longrightarrow>
               check_needs_rehash ep
                 (self\<lparr>parameters := (parameters self)\<lparr>salt_len := x\<rparr>\<rparr>) h = Inr True)
          \<and> (\<forall>x. x \<noteq> hash_len (parameters self) \<longrightarrow>
               check_needs_rehash ep
                 (self\<lparr>parameters := (parameters self)\<lparr>hash_len := x\<rparr>\<rparr>) h = Inr True)
          \<and> (\<forall>x. x \<noteq> time_cost (parameters self) \<longrightarrow>
               check_needs_rehash ep
                 (self\<lparr>parameters := (parameters self)\<lparr>time_cost := x\<rparr>\<rparr>) h = Inr True)
          \<and> (\<forall>x. x \<noteq> memory_cost (parameters self) \<longrightarrow>
               check_needs_rehash ep
                 (self\<lparr>parameters := (parameters self)\<lparr>memory_cost := x\<rparr>\<rparr>) h = Inr True)
          \<and> (\<forall>x. x \<noteq> parallelism (parameters self) \<longrightarrow>
               check_needs_rehash ep
                 (self\<lparr>parameters := (parameters self)\<lparr>parallelism := x\<rparr>\<rparr>) h = Inr True))"
proof -
  have eq: "check_needs_rehash ep self' h = Inr (parameters self' \<noteq> decoded)" for self'
    using assms by (auto simp: check_needs_rehash_text check_needs_rehash_bytes)
  have changed: "check_needs_rehash ep (self\<lparr>parameters := P\<rparr>) h = Inr True"
    if "P \<noteq> decoded" for P
    using that by (simp add: eq)
  show ?thesis
  proof (intro conjI impI allI)
    show "check_needs_rehash ep self h = Inr (parameters self \<noteq> decoded)"
      by (rule eq)
    show "(parameters self \<noteq> decoded) =
           (type (parameters self) \<noteq> type decoded
            \<or> version (parameters self) \<noteq> version decoded
            \<or> salt_len (parameters self) \<noteq> salt_len decoded
            \<or> hash_len (parameters self) \<noteq> hash_len decoded
            \<or> time_cost (parameters self) \<noteq> time_cost decoded
            \<or> memory_cost (parameters self) \<noteq> memory_cost decoded
            \<or> parallelism (parameters self) \<noteq> parallelism decoded)"
      by (rule Parameters_neq_iff)
  qed (simp add: eq, (rule changed, simp add: Parameters_neq_iff)+)
qed

theorem check_needs_rehash_iff_parameters_differ_witness:
  "check_needs_rehash extract_parameters
     \<lparr>parameters = low_memory, encoding = ustr ''utf-8''\<rparr>
     (PyStr (ustr ''$argon2id$v=19$m=65536,t=3,p=4$AwoRGB8mLTQ7QklQV15lbA$AwoRGB8mLTQ7QklQV15lbGNvcnJlY3QgYmF0dGVyeSA''))
     = Inr False
   \<and> check_needs_rehash extract_parameters
     \<lparr>parameters = low_memory\<lparr>time_cost := 4\<rparr>, encoding = ustr ''utf-8''\<rparr>
     (PyStr (ustr ''$argon2id$v=19$m=65536,t=3,p=4$AwoRGB8mLTQ7QklQV15lbA$AwoRGB8mLTQ7QklQV15lbGNvcnJlY3QgYmF0dGVyeSA''))
     = Inr True"
proof -
  let ?s = "ustr ''$argon2id$v=19$m=65536,t=3,p=4$AwoRGB8mLTQ7QklQV15lbA$AwoRGB8mLTQ7QklQV15lbGNvcnJlY3QgYmF0dGVyeSA''"
  let ?self = "\<lparr>parameters = low_memory, encoding = ustr ''utf-8''\<rparr>"
  have d: "extract_parameters (PyStr ?s) = Inr low_memory"
    by (rule extract_parameters_scenario)
  have t: "(4 :: int) \<noteq> time_cost low_memory"
    by (simp add: low_memory_def)
  show ?thesis
    using check_needs_rehash_iff_parameters_differ
      [where h = "PyStr ?s" and s = ?s and ep = extract_parameters and decoded = low_memory
         and self = ?self, OF _ d] t
    by simp
qed

section \<open>Dispatch on the header\<close>

text \<open>
  C2, as the code has it. The hash is coerced to bytes before its header is looked at, and
  the password after: a text hash with an unrecognised header and a character outside
  ASCII is answered with \<open>UnicodeEncodeError\<close>, not \<open>InvalidHashError\<close>; with a
  recognised header and a password that the configured encoding rejects, \<open>verify\<close>
  raises the codec's error and forwards nothing.
\<close>

theorem verify_coercion_errors:
  "verify py_codecs sample_verify_secret \<lparr>parameters = low_memory, encoding = ustr ''utf-8''\<rparr>
     (PyStr (ustr ''$bcrypt$'' @ [8364])) (PyStr (ustr ''pw'')) = Inl UnicodeEncodeError
   \<and> verify py_codecs sample_verify_secret \<lparr>parameters = low_memory, encoding = ustr ''ascii''\<rparr>
     (PyBytes ''$argon2i$x'') (PyStr (ustr ''caf'' @ [233])) = Inl UnicodeEncodeError"
  by (simp add: verify_def header_to_type_cases ascii_euro ascii_cafe)

text \<open>
  C2, amended. For every hash that is bytes (taken as they are) or text that the ASCII
  codec turns into bytes: when the first nine bytes are none of the three tokens,
  \<open>verify\<close> raises \<open>InvalidHashError\<close> whatever the password and the primitive are, so
  without a call of it; when they are one of the tokens and the password is bytes (taken
  as they are) or text that the configured encoding turns into bytes, \<open>verify\<close> is the
  primitive's outcome on the hash bytes, the password bytes and the token's variant.
\<close>

theorem verify_dispatches_on_header:
  assumes "h = PyBytes hb \<or> (\<exists>s. h = PyStr s \<and> cs (ustr ''ascii'') s = Inr hb)"
  shows "(take 9 hb \<notin> {''$argon2i$'', ''$argon2d$'', ''$argon2id''}
            \<longrightarrow> verify cs vs self h password = Inl InvalidHashError)
       \<and> (\<forall>secret t.
             password = PyBytes secret
               \<or> (\<exists>pw. password = PyStr pw \<and> cs (encoding self) pw = Inr secret)
            \<longrightarrow> (take 9 hb = ''$argon2i$'' \<and> t = I \<or> take 9 hb = ''$argon2d$'' \<and> t = D
                  \<or> take 9 hb = ''$argon2id'' \<and> t = ID)
            \<longrightarrow> verify cs vs self h password = vs hb secret t)"
  using assms by (auto simp: verify_def header_to_type_cases)

theorem verify_dispatches_on_header_witness:
  "verify py_codecs sample_verify_secret \<lparr>parameters = low_memory, encoding = ustr ''utf-8''\<rparr>
     (PyBytes ''$bcrypt$2b$12$abcdefghijklmnopqrstuv'') (PyBytes ''pw'') = Inl InvalidHashError
   \<and> verify py_codecs sample_verify_secret \<lparr>parameters = low_memory, encoding = ustr ''utf-8''\<rparr>
     (PyStr (ustr ''$bcrypt$2b$12$abcdefghijklmnopqrstuv'')) (PyStr (ustr ''pw''))
     = Inl InvalidHashError
   \<and> verify py_codecs sample_verify_secret \<lparr>parameters = low_memory, encoding = ustr ''utf-8''\<rparr>
     (PyBytes ''$argon2id$v=19$m=65536,t=3,p=4$AwoRGB8mLTQ7QklQV15lbA$AwoRGB8mLTQ7QklQV15lbGNvcnJlY3QgYmF0dGVyeSA'')
     (PyBytes ''correct battery horse'')
     = sample_verify_secret
         ''$argon2id$v=19$m=65536,t=3,p=4$AwoRGB8mLTQ7QklQV15lbA$AwoRGB8mLTQ7QklQV15lbGNvcnJlY3QgYmF0dGVyeSA''
         ''correct battery horse'' ID
   \<and> verify py_codecs sample_verify_secret \<lparr>parameters = low_memory, encoding = ustr ''utf-8''\<rparr>
     (PyStr (ustr ''$argon2id$v=19$m=65536,t=3,p=4$AwoRGB8mLTQ7QklQV15lbA$AwoRGB8mLTQ7QklQV15lbGNvcnJlY3QgYmF0dGVyeSA''))
     (PyStr (ustr ''correct battery horse''))
     = sample_verify_secret
         ''$argon2id$v=19$m=65536,t=3,p=4$AwoRGB8mLTQ7QklQV15lbA$AwoRGB8mLTQ7QklQV15lbGNvcnJlY3QgYmF0dGVyeSA''
         ''correct battery horse'' ID"
proof -
  let ?self = "\<lparr>parameters = low_memory, encoding = ustr ''utf-8''\<rparr>"
  let ?bcrypt = "''$bcrypt$2b$12$abcdefghijklmnopqrstuv''"
  have e: "encoding ?self = ustr ''utf-8''"
    by simp
  have 1: "verify py_codecs sample_verify_secret ?self (PyBytes ?bcrypt) (PyBytes ''pw'')
             = Inl InvalidHashError"
    using verify_dispatches_on_header [where h = "PyBytes ?bcrypt" and hb = ?bcrypt
        and cs = py_codecs and vs = sample_verify_secret and self = ?self
        and password = "PyBytes ''pw''"]
    by simp
  have 2: "verify py_codecs sample_verify_secret ?self (PyStr (ustr ?bcrypt))
             (PyStr (ustr ''pw'')) = Inl InvalidHashError"
    using verify_dispatches_on_header [where h = "PyStr (ustr ?bcrypt)" and hb = ?bcrypt
        and cs = py_codecs and vs = sample_verify_secret and self = ?self
        and password = "PyStr (ustr ''pw'')"] ascii_bcrypt
    by simp
  have 3: "verify py_codecs sample_verify_secret ?self (PyBytes scenario_hash)
             (PyBytes ''correct battery horse'')
           = sample_verify_secret scenario_hash ''correct battery horse'' ID"
    using verify_dispatches_on_header [where h = "PyBytes scenario_hash"
        and hb = scenario_hash and cs = py_codecs and vs = sample_verify_secret
        and self = ?self and password = "PyBytes ''correct battery horse''"]
    by simp
  have 4: "verify py_codecs sample_verify_secret ?self (PyStr (ustr scenario_hash))
             (PyStr (ustr ''correct battery horse''))
           = sample_verify_secret scenario_hash ''correct battery horse'' ID"
    using verify_dispatches_on_header [where h = "PyStr (ustr scenario_hash)"
        and hb = scenario_hash and cs = py_codecs and vs = sample_verify_secret
        and self = ?self and password = "PyStr (ustr ''correct battery horse'')"]
      ascii_scenario_hash utf8_scenario_password
    by simp
  from 1 2 3 4 show ?thesis
    by blast
qed

section \<open>Construction\<close>

text \<open>
  C3, as the code has it. A constructor argument of the wrong type is not answered with
  \<open>InvalidParameterError\<close>: the constructor raises Python's \<open>TypeError\<close>.
\<close>

theorem init_wrong_type_is_not_InvalidParameterError:
  "PasswordHasher_init linux (PyStr (ustr ''3'')) (PyInt 65536) (PyInt 4) (PyInt 32) (PyInt 16)
     (PyStr (ustr ''utf-8'')) (PyType ID) = Inl TypeError
   \<and> PasswordHasher_init linux (PyStr (ustr ''3'')) (PyInt 65536) (PyInt 4) (PyInt 32) (PyInt 16)
     (PyStr (ustr ''utf-8'')) (PyType ID) \<noteq> Inl InvalidParameterError"
  by (simp add: PasswordHasher_init_def check_types_def)

text \<open>
  C3, amended. For every call of the constructor in which some argument is not an
  instance of the class required of it (\<open>int\<close> for the five numbers, \<open>str\<close> for the
  encoding, \<open>Type\<close> for the type), construction fails with \<open>TypeError\<close>, in every runtime.
\<close>

theorem init_wrong_type_raises_TypeError:
  assumes "\<not> isinstance tc Int_class \<or> \<not> isinstance mc Int_class \<or> \<not> isinstance p Int_class
           \<or> \<not> isinstance hl Int_class \<or> \<not> isinstance sl Int_class
           \<or> \<not> isinstance enc Str_class \<or> \<not> isinstance ty Type_class"
  shows "PasswordHasher_init rt tc mc p hl sl enc ty = Inl TypeError"
  using assms unfolding PasswordHasher_init_def Let_def check_types_empty_iff by auto

theorem init_wrong_type_raises_TypeError_witness:
  "PasswordHasher_init emscripten (PyInt 3) (PyInt 65536) (PyInt 4) (PyInt 32) PyNone
     (PyBytes ''utf-8'') (PyType ID) = Inl TypeError"
  using init_wrong_type_raises_TypeError [where sl = PyNone and rt = emscripten
      and tc = "PyInt 3" and mc = "PyInt 65536" and p = "PyInt 4" and hl = "PyInt 32"
      and enc = "PyBytes ''utf-8''" and ty = "PyType ID"]
  by simp

text \<open>
  C4. With the other arguments well typed and the parallelism an integer \<open>p\<close>: in a
  constrained runtime (\<open>is_wasm\<close> at construction) and with \<open>p \<noteq> 1\<close> the constructor
  raises \<open>UnsupportedParamsError\<close>; in a normal runtime, and in any runtime with \<open>p = 1\<close>,
  it succeeds and the hasher holds the arguments.
\<close>

theorem init_enforces_parallelism_rule:
  assumes "isinstance tc Int_class" and "isinstance mc Int_class"
    and "isinstance hl Int_class" and "isinstance sl Int_class"
    and "isinstance enc Str_class" and "isinstance ty Type_class"
  shows "(is_wasm rt \<and> p \<noteq> 1 \<longrightarrow>
            PasswordHasher_init rt tc mc (PyInt p) hl sl enc ty = Inl UnsupportedParamsError)
       \<and> (\<not> is_wasm rt \<or> p = 1 \<longrightarrow>
            PasswordHasher_init rt tc mc (PyInt p) hl sl enc ty =
              Inr \<lparr>parameters =
                     \<lparr>type = the_Type ty, version = 19, salt_len = the_int sl,
                      hash_len = the_int hl, time_cost = the_int tc,
                      memory_cost = the_int mc, parallelism = p\<rparr>,
                   encoding = the_str enc\<rparr>)"
  using assms unfolding PasswordHasher_init_def Let_def check_types_empty_iff by auto

theorem init_enforces_parallelism_rule_witness:
  "PasswordHasher_init emscripten (PyInt 3) (PyInt 65536) (PyInt 4) (PyInt 32) (PyInt 16)
     (PyStr (ustr ''utf-8'')) (PyType ID) = Inl UnsupportedParamsError
   \<and> PasswordHasher_init linux (PyInt 3) (PyInt 65536) (PyInt 4) (PyInt 32) (PyInt 16)
     (PyStr (ustr ''utf-8'')) (PyType ID) =
       Inr \<lparr>parameters = low_memory, encoding = ustr ''utf-8''\<rparr>
   \<and> PasswordHasher_init emscripten (PyInt 3) (PyInt 65536) (PyInt 1) (PyInt 32) (PyInt 16)
     (PyStr (ustr ''utf-8'')) (PyType ID) =
       Inr \<lparr>parameters = low_memory\<lparr>parallelism := 1\<rparr>, encoding = ustr ''utf-8''\<rparr>
   \<and> PasswordHasher_init linux (PyInt 3) (PyInt 65536) (PyInt 1) (PyInt 32) (PyInt 16)
     (PyStr (ustr ''utf-8'')) (PyType ID) =
       Inr \<lparr>parameters = low_memory\<lparr>parallelism := 1\<rparr>, encoding = ustr ''utf-8''\<rparr>"
  using init_enforces_parallelism_rule [where rt = emscripten and p = 4 and tc = "PyInt 3"
      and mc = "PyInt 65536" and hl = "PyInt 32" and sl = "PyInt 16"
      and enc = "PyStr (ustr ''utf-8'')" and ty = "PyType ID"]
    init_enforces_parallelism_rule [where rt = linux and p = 4 and tc = "PyInt 3"
      and mc = "PyInt 65536" and hl = "PyInt 32" and sl = "PyInt 16"
      and enc = "PyStr (ustr ''utf-8'')" and ty = "PyType ID"]
    init_enforces_parallelism_rule [where rt = emscripten and p = 1 and tc = "PyInt 3"
      and mc = "PyInt 65536" and hl = "PyInt 32" and sl = "PyInt 16"
      and enc = "PyStr (ustr ''utf-8'')" and ty = "PyType ID"]
    init_enforces_parallelism_rule [where rt = linux and p = 1 and tc = "PyInt 3"
      and mc = "PyInt 65536" and hl = "PyInt 32" and sl = "PyInt 16"
      and enc = "PyStr (ustr ''utf-8'')" and ty = "PyType ID"]
  by (simp add: is_wasm_emscripten not_is_wasm_linux low_memory_def)

text \<open>
  C5, at the failing input. Imported in a normal runtime and called in a constrained one
  (the platform injected after import), \<open>from_parameters\<close> with parameters whose
  parallelism is 1 raises \<open>UnsupportedParamsError\<close>: \<^verbatim>\<open>cls()\<close> applies the platform rule
  to the default parallelism fixed at import. The constructor accepts the same
  parameters in the same runtime, and so does \<open>from_parameters\<close> when the module was
  imported in the constrained runtime.
\<close>

theorem from_parameters_fails_after_runtime_switch:
  "from_parameters linux emscripten low_memory (low_memory\<lparr>parallelism := 1\<rparr>)
     = Inl UnsupportedParamsError
   \<and> PasswordHasher_init emscripten (PyInt 3) (PyInt 65536) (PyInt 1) (PyInt 32) (PyInt 16)
       (PyStr (ustr ''utf-8'')) (PyType ID)
     = Inr \<lparr>parameters = low_memory\<lparr>parallelism := 1\<rparr>, encoding = ustr ''utf-8''\<rparr>
   \<and> from_parameters emscripten emscripten low_memory (low_memory\<lparr>parallelism := 1\<rparr>)
     = Inr \<lparr>parameters = low_memory\<lparr>parallelism := 1\<rparr>, encoding = ustr ''utf-8''\<rparr>"
  by (simp add: from_parameters_def PasswordHasher_default_eq DEFAULT_PARALLELISM_def
      PasswordHasher_init_def check_types_def is_wasm_emscripten not_is_wasm_linux
      low_memory_def)

text \<open>
  C10. Every hasher that \<open>from_parameters\<close> returns has the encoding \<^verbatim>\<open>"utf-8"\<close>: the
  alternate constructor takes no encoding and builds on the default constructor.
\<close>

theorem from_parameters_encoding_is_utf8:
  assumes "from_parameters rt_import rt RFC params = Inr ph"
  shows "encoding ph = ustr ''utf-8''"
  using assms
  by (auto simp: from_parameters_def PasswordHasher_default_eq split: if_splits)

theorem from_parameters_encoding_is_utf8_witness:
  "from_parameters linux linux low_memory (low_memory\<lparr>time_cost := 4\<rparr>)
     = Inr \<lparr>parameters = low_memory\<lparr>time_cost := 4\<rparr>, encoding = ustr ''utf-8''\<rparr>
   \<and> encoding \<lparr>parameters = low_memory\<lparr>time_cost := 4\<rparr>, encoding = ustr ''utf-8''\<rparr>
     = ustr ''utf-8''"
proof -
  have a: "from_parameters linux linux low_memory (low_memory\<lparr>time_cost := 4\<rparr>)
     = Inr \<lparr>parameters = low_memory\<lparr>time_cost := 4\<rparr>, encoding = ustr ''utf-8''\<rparr>"
    by (simp add: from_parameters_def PasswordHasher_default_eq DEFAULT_PARALLELISM_def
        not_is_wasm_linux)
  show ?thesis
    using a from_parameters_encoding_is_utf8 [OF a] by simp
qed

section \<open>Malformed hashes\<close>

text \<open>
  C6, as the code has it. A hash cut off after its parameters has a recognised header, so
  \<open>verify\<close> hands it to the primitive, whose failure is \<open>VerificationError\<close>; a text
  hash with a character outside ASCII fails in the coercion with \<open>UnicodeEncodeError\<close>;
  a bytes hash with a byte outside ASCII fails in \<open>check_needs_rehash\<close> with
  \<open>UnicodeDecodeError\<close>. None of the three is \<open>InvalidHashError\<close>.
\<close>

theorem malformed_hash_other_errors:
  "verify py_codecs sample_verify_secret \<lparr>parameters = low_memory, encoding = ustr ''utf-8''\<rparr>
     (PyStr (ustr ''$argon2id$v=19$m=65536,t=3,p=4$'')) (PyStr (ustr ''pw''))
     = Inl VerificationError
   \<and> verify py_codecs sample_verify_secret \<lparr>parameters = low_memory, encoding = ustr ''utf-8''\<rparr>
     (PyStr (ustr ''$bcrypt$'' @ [233])) (PyStr (ustr ''pw''))
     = Inl UnicodeEncodeError
   \<and> check_needs_rehash extract_parameters \<lparr>parameters = low_memory, encoding = ustr ''utf-8''\<rparr>
     (PyBytes (''$bcrypt$'' @ [CHR 0xE9]))
     = Inl UnicodeDecodeError"
proof -
  have e: "ensure_bytes py_codecs (PyStr (ustr ''$bcrypt$'' @ [233])) (ustr ''ascii'')
             = Inl UnicodeEncodeError"
    by code_simp
  have d: "decode_ascii (''$bcrypt$'' @ [CHR 0xE9]) = Inl UnicodeDecodeError"
    by code_simp
  have "verify py_codecs sample_verify_secret
          \<lparr>parameters = low_memory, encoding = ustr ''utf-8''\<rparr>
          (PyStr (ustr ''$bcrypt$'' @ [233])) (PyStr (ustr ''pw'')) = Inl UnicodeEncodeError"
    using e by (simp add: verify_def)
  moreover have "check_needs_rehash extract_parameters
          \<lparr>parameters = low_memory, encoding = ustr ''utf-8''\<rparr>
          (PyBytes (''$bcrypt$'' @ [CHR 0xE9])) = Inl UnicodeDecodeError"
    using d by (simp add: check_needs_rehash_def)
  ultimately show ?thesis
    using verify_truncated_hash by blast
qed

text \<open>
  C6, amended. For every hash that is bytes, or text that the ASCII codec turns into
  bytes: \<open>verify\<close> raises \<open>InvalidHashError\<close> when the first nine bytes are none of
  the three tokens; when they are one of them and the password is bytes or text that the
  configured encoding turns into bytes, \<open>verify\<close> parses no further and its outcome is
  the primitive's, which by the primitive's interface is \<open>True\<close>, \<open>VerifyMismatchError\<close>
  or \<open>VerificationError\<close>. For every hash that is text or ASCII bytes, the only
  exception \<open>check_needs_rehash\<close> raises with the decoder is \<open>InvalidHashError\<close>, and
  it raises it whenever the text does not have the six segments or its variant token is
  unrecognised.
\<close>

theorem malformed_hash_errors:
  "(\<forall>hb. h = PyBytes hb \<or> (\<exists>s. h = PyStr s \<and> cs (ustr ''ascii'') s = Inr hb) \<longrightarrow>
      (take 9 hb \<notin> {''$argon2i$'', ''$argon2d$'', ''$argon2id''} \<longrightarrow>
         verify cs vs self h password = Inl InvalidHashError)
      \<and> (\<forall>secret t.
            password = PyBytes secret
              \<or> (\<exists>pw. password = PyStr pw \<and> cs (encoding self) pw = Inr secret) \<longrightarrow>
            (take 9 hb = ''$argon2i$'' \<and> t = I \<or> take 9 hb = ''$argon2d$'' \<and> t = D
               \<or> take 9 hb = ''$argon2id'' \<and> t = ID) \<longrightarrow>
            verify cs vs self h password = vs hb secret t
            \<and> (verify_secret_contract vs \<longrightarrow>
                 verify cs vs self h password
                   \<in> {Inr True, Inl VerifyMismatchError, Inl VerificationError})))
   \<and> (\<forall>s. h = PyStr s \<or> (\<exists>b. h = PyBytes b \<and> decode_ascii b = Inr s) \<longrightarrow>
        (\<forall>e. check_needs_rehash extract_parameters self h = Inl e \<longrightarrow> e = InvalidHashError)
        \<and> (\<forall>bs. encode_ascii s = Inr bs \<longrightarrow>
              length (split_on CHR ''$'' bs) \<noteq> 6
                \<or> token_variant (split_on CHR ''$'' bs ! 1) = None \<longrightarrow>
              check_needs_rehash extract_parameters self h = Inl InvalidHashError))"
proof (intro conjI allI impI)
  fix hb
  assume c: "h = PyBytes hb \<or> (\<exists>s. h = PyStr s \<and> cs (ustr ''ascii'') s = Inr hb)"
  {
    assume "take 9 hb \<notin> {''$argon2i$'', ''$argon2d$'', ''$argon2id''}"
    with c show "verify cs vs self h password = Inl InvalidHashError"
      by (auto simp: verify_def header_to_type_cases)
  }
  fix secret t
  assume p: "password = PyBytes secret
               \<or> (\<exists>pw. password = PyStr pw \<and> cs (encoding self) pw = Inr secret)"
    and t: "take 9 hb = ''$argon2i$'' \<and> t = I \<or> take 9 hb = ''$argon2d$'' \<and> t = D
               \<or> take 9 hb = ''$argon2id'' \<and> t = ID"
  from c p t show eq: "verify cs vs self h password = vs hb secret t"
    by (auto simp: verify_def header_to_type_cases)
  assume "verify_secret_contract vs"
  then show "verify cs vs self h password
               \<in> {Inr True, Inl VerifyMismatchError, Inl VerificationError}"
    unfolding eq verify_secret_contract_def by blast
next
  fix s e
  assume c: "h = PyStr s \<or> (\<exists>b. h = PyBytes b \<and> decode_ascii b = Inr s)"
    and e: "check_needs_rehash extract_parameters self h = Inl e"
  from c have "check_needs_rehash extract_parameters self h
                 = check_needs_rehash extract_parameters self (PyStr s)"
    by (auto simp: check_needs_rehash_bytes)
  with e show "e = InvalidHashError"
    by (auto simp: check_needs_rehash_text split: sum.splits dest: extract_parameters_error)
next
  fix s bs
  assume c: "h = PyStr s \<or> (\<exists>b. h = PyBytes b \<and> decode_ascii b = Inr s)"
    and a: "encode_ascii s = Inr bs"
    and m: "length (split_on CHR ''$'' bs) \<noteq> 6
              \<or> token_variant (split_on CHR ''$'' bs ! 1) = None"
  from c have "check_needs_rehash extract_parameters self h
                 = check_needs_rehash extract_parameters self (PyStr s)"
    by (auto simp: check_needs_rehash_bytes)
  then show "check_needs_rehash extract_parameters self h = Inl InvalidHashError"
    by (simp add: check_needs_rehash_text extract_parameters_malformed [OF a m])
qed

theorem malformed_hash_errors_witness:
  "verify py_codecs sample_verify_secret \<lparr>parameters = low_memory, encoding = ustr ''utf-8''\<rparr>
     (PyStr (ustr ''$bcrypt$2b$12$abcdefghijklmnopqrstuv'')) (PyStr (ustr ''pw''))
     = Inl InvalidHashError
   \<and> verify py_codecs sample_verify_secret \<lparr>parameters = low_memory, encoding = ustr ''utf-8''\<rparr>
     (PyStr (ustr ''$argon2id$v=19$m=65536,t=3,p=4$'')) (PyStr (ustr ''pw''))
     = sample_verify_secret ''$argon2id$v=19$m=65536,t=3,p=4$'' ''pw'' ID
   \<and> verify py_codecs sample_verify_secret \<lparr>parameters = low_memory, encoding = ustr ''utf-8''\<rparr>
     (PyStr (ustr ''$argon2id$v=19$m=65536,t=3,p=4$'')) (PyStr (ustr ''pw''))
     \<in> {Inr True, Inl VerifyMismatchError, Inl VerificationError}
   \<and> check_needs_rehash extract_parameters
     \<lparr>parameters = low_memory, encoding = ustr ''utf-8''\<rparr>
     (PyStr (ustr ''$argon2id$v=19$m=65536,t=3,p=4$'')) = Inl InvalidHashError
   \<and> check_needs_rehash extract_parameters
     \<lparr>parameters = low_memory, encoding = ustr ''utf-8''\<rparr>
     (PyBytes ''$bcrypt$v=19$m=65536,t=3,p=4$AwoR$AwoR'') = Inl InvalidHashError"
proof -
  let ?self = "\<lparr>parameters = low_memory, encoding = ustr ''utf-8''\<rparr>"
  let ?pw = "PyStr (ustr ''pw'')"
  let ?bcrypt = "''$bcrypt$2b$12$abcdefghijklmnopqrstuv''"
  let ?cut = "''$argon2id$v=19$m=65536,t=3,p=4$''"
  let ?six = "''$bcrypt$v=19$m=65536,t=3,p=4$AwoR$AwoR''"
  have 1: "verify py_codecs sample_verify_secret ?self (PyStr (ustr ?bcrypt)) ?pw
             = Inl InvalidHashError"
    using malformed_hash_errors [where h = "PyStr (ustr ?bcrypt)" and cs = py_codecs
        and vs = sample_verify_secret and self = ?self and password = ?pw] ascii_bcrypt
    by simp
  have 2: "verify py_codecs sample_verify_secret ?self (PyStr (ustr ?cut)) ?pw
             = sample_verify_secret ?cut ''pw'' ID
           \<and> verify py_codecs sample_verify_secret ?self (PyStr (ustr ?cut)) ?pw
             \<in> {Inr True, Inl VerifyMismatchError, Inl VerificationError}"
    using malformed_hash_errors [where h = "PyStr (ustr ?cut)" and cs = py_codecs
        and vs = sample_verify_secret and self = ?self and password = ?pw]
      ascii_truncated utf8_pw sample_verify_secret_contract
    by auto
  have 3: "check_needs_rehash extract_parameters ?self (PyStr (ustr ?cut))
             = Inl InvalidHashError"
    using malformed_hash_errors [where h = "PyStr (ustr ?cut)" and self = ?self]
      encode_ascii_truncated split_truncated
    by simp
  have 4: "check_needs_rehash extract_parameters ?self (PyBytes ?six) = Inl InvalidHashError"
    using malformed_hash_errors [where h = "PyBytes ?six" and self = ?self]
      bcrypt_six_segments
    by simp
  from 1 2 3 4 show ?thesis
    by blast
qed

section \<open>What verification returns\<close>

text \<open>
  C8. With a primitive that returns true or fails, as its interface in the spec says,
  \<open>verify\<close> on any hash and any password either raises or returns \<open>True\<close>; it never
  returns a false value.
\<close>

theorem verify_returns_True_or_raises:
  assumes "verify_secret_contract vs"
  shows "verify cs vs self h password = Inr True \<or> (\<exists>e. verify cs vs self h password = Inl e)"
proof -
  have "vs hb secret t = Inr True \<or> (\<exists>e. vs hb secret t = Inl e)" for hb secret t
    using assms unfolding verify_secret_contract_def by (metis insertE singletonD)
  then show ?thesis
    by (auto simp: verify_def split: sum.splits option.splits)
qed

theorem verify_returns_True_or_raises_witness:
  "verify_secret_contract sample_verify_secret
   \<and> verify py_codecs sample_verify_secret
         \<lparr>parameters = low_memory, encoding = ustr ''utf-8''\<rparr>
         (PyStr (ustr ''$argon2id$v=19$m=65536,t=3,p=4$AwoRGB8mLTQ7QklQV15lbA$AwoRGB8mLTQ7QklQV15lbGNvcnJlY3QgYmF0dGVyeSA''))
         (PyStr (ustr ''correct battery horse'')) = Inr True
   \<and> (\<exists>e. verify py_codecs sample_verify_secret
              \<lparr>parameters = low_memory, encoding = ustr ''utf-8''\<rparr>
              (PyStr (ustr ''$argon2id$v=19$m=65536,t=3,p=4$AwoRGB8mLTQ7QklQV15lbA$AwoRGB8mLTQ7QklQV15lbGNvcnJlY3QgYmF0dGVyeSA''))
              (PyStr (ustr ''wrong'')) = Inl e)
   \<and> (\<exists>e. verify py_codecs sample_verify_secret
              \<lparr>parameters = low_memory, encoding = ustr ''utf-8''\<rparr>
              (PyStr (ustr ''$argon2id$v=19$m=65536,t=3,p=4$'')) (PyStr (ustr ''pw'')) = Inl e)"
proof -
  let ?self = "\<lparr>parameters = low_memory, encoding = ustr ''utf-8''\<rparr>"
  have w: "py_codecs (ustr ''utf-8'') (ustr ''wrong'') = Inr ''wrong''"
    by code_simp
  have good: "verify py_codecs sample_verify_secret ?self (PyStr (ustr scenario_hash))
                (PyStr (ustr ''correct battery horse'')) = Inr True"
    by (simp add: verify_def header_to_type_cases ascii_scenario_hash utf8_scenario_password
        sample_verify_secret_scenario)
  have wrong: "verify py_codecs sample_verify_secret ?self (PyStr (ustr scenario_hash))
                 (PyStr (ustr ''wrong'')) \<noteq> Inr True"
    by (simp add: verify_def header_to_type_cases ascii_scenario_hash w
        sample_verify_secret_scenario)
  have cut: "verify py_codecs sample_verify_secret ?self
               (PyStr (ustr ''$argon2id$v=19$m=65536,t=3,p=4$'')) (PyStr (ustr ''pw''))
             \<noteq> Inr True"
    by (simp add: verify_truncated_hash)
  show ?thesis
    using sample_verify_secret_contract good
      verify_returns_True_or_raises [OF sample_verify_secret_contract,
        where cs = py_codecs and self = ?self and h = "PyStr (ustr scenario_hash)"
          and password = "PyStr (ustr ''wrong'')"] wrong
      verify_returns_True_or_raises [OF sample_verify_secret_contract,
        where cs = py_codecs and self = ?self
          and h = "PyStr (ustr ''$argon2id$v=19$m=65536,t=3,p=4$'')"
          and password = "PyStr (ustr ''pw'')"] cut
    by blast
qed

section \<open>Hashing\<close>

text \<open>
  C7. For every password given as text that the hasher's encoding turns into bytes, and a
  hasher whose \<open>salt_len\<close> is not negative: without a supplied salt, \<open>hash\<close> reads
  exactly \<open>salt_len\<close> bytes from the random source and its result is the primitive's on
  the password bytes, those salt bytes and the hasher's time cost, memory cost,
  parallelism, hash length and type: the primitive's failure unchanged (so
  \<open>HashingError\<close> for a primitive failing with it), and the primitive's encoded bytes
  read as ASCII text.
\<close>

theorem hash_assembles_the_call:
  assumes "cs (encoding self) pw = Inr secret"
    and "0 \<le> salt_len (parameters self)"
  shows "(\<exists>salt. os_urandom ent (salt_len (parameters self)) = Inr salt
           \<and> int (length salt) = salt_len (parameters self)
           \<and> hash cs hs ent self (PyStr pw) None =
               (case hs secret salt (time_cost (parameters self))
                       (memory_cost (parameters self)) (parallelism (parameters self))
                       (hash_len (parameters self)) (type (parameters self)) of
                  Inl e \<Rightarrow> Inl e
                | Inr encoded \<Rightarrow> decode_ascii encoded)
           \<and> (\<forall>e. hs secret salt (time_cost (parameters self))
                       (memory_cost (parameters self)) (parallelism (parameters self))
                       (hash_len (parameters self)) (type (parameters self)) = Inl e \<longrightarrow>
                   hash cs hs ent self (PyStr pw) None = Inl e)
           \<and> (\<forall>encoded text. hs secret salt (time_cost (parameters self))
                       (memory_cost (parameters self)) (parallelism (parameters self))
                       (hash_len (parameters self)) (type (parameters self)) = Inr encoded \<longrightarrow>
                   decode_ascii encoded = Inr text \<longrightarrow>
                   hash cs hs ent self (PyStr pw) None = Inr text))
       \<and> (\<forall>b bs. hash cs hs ent self (PyStr pw) (Some (b # bs)) =
               (case hs secret (b # bs) (time_cost (parameters self))
                       (memory_cost (parameters self)) (parallelism (parameters self))
                       (hash_len (parameters self)) (type (parameters self)) of
                  Inl e \<Rightarrow> Inl e
                | Inr encoded \<Rightarrow> decode_ascii encoded))"
  using assms by (auto simp: hash_def os_urandom_def)

theorem hash_assembles_the_call_witness:
  "hash py_codecs sample_hash_secret counter
     \<lparr>parameters = low_memory, encoding = ustr ''utf-8''\<rparr>
     (PyStr (ustr ''correct battery horse'')) None
   = Inr (ustr ''$argon2id$v=19$m=65536,t=3,p=4$AwoRGB8mLTQ7QklQV15lbA$AwoRGB8mLTQ7QklQV15lbGNvcnJlY3QgYmF0dGVyeSA'')"
proof -
  let ?self = "\<lparr>parameters = low_memory, encoding = ustr ''utf-8''\<rparr>"
  have c: "py_codecs (encoding ?self) (ustr ''correct battery horse'')
             = Inr ''correct battery horse''"
    by (simp add: utf8_scenario_password)
  have z: "0 \<le> salt_len (parameters ?self)"
    by (simp add: low_memory_def)
  have f: "parameters ?self = low_memory" "salt_len low_memory = 16"
    "time_cost low_memory = 3" "memory_cost low_memory = 65536"
    "parallelism low_memory = 4" "hash_len low_memory = 32" "type low_memory = ID"
    by (simp_all add: low_memory_def)
  from hash_assembles_the_call [where cs = py_codecs and self = ?self
      and pw = "ustr ''correct battery horse''" and secret = "''correct battery horse''"
      and ent = counter and hs = sample_hash_secret] c z
  obtain salt where salt: "os_urandom counter 16 = Inr salt"
    and ret: "\<And>encoded text.
        sample_hash_secret ''correct battery horse'' salt 3 65536 4 32 ID = Inr encoded \<Longrightarrow>
        decode_ascii encoded = Inr text \<Longrightarrow>
        hash py_codecs sample_hash_secret counter ?self
          (PyStr (ustr ''correct battery horse'')) None = Inr text"
    unfolding f by blast
  from salt have "salt = scenario_salt"
    by (simp add: os_urandom_counter)
  then show ?thesis
    using ret [OF _ decode_ascii_scenario_hash] sample_hash_secret_scenario by simp
qed

text \<open>
  C9. A supplied empty salt is not used: \<open>hash\<close> with \<^verbatim>\<open>salt=b""\<close> is \<open>hash\<close> without a
  salt, and when the password can be coerced and \<open>salt_len\<close> is not negative the
  primitive receives \<open>salt_len\<close> bytes read from the random source.
\<close>

theorem hash_replaces_empty_salt:
  "hash cs hs ent self password (Some []) = hash cs hs ent self password None
   \<and> (\<forall>secret. ensure_bytes cs password (encoding self) = Inr secret \<longrightarrow>
        0 \<le> salt_len (parameters self) \<longrightarrow>
        (\<exists>salt. os_urandom ent (salt_len (parameters self)) = Inr salt
           \<and> int (length salt) = salt_len (parameters self)
           \<and> hash cs hs ent self password (Some []) =
               (case hs secret salt (time_cost (parameters self))
                       (memory_cost (parameters self)) (parallelism (parameters self))
                       (hash_len (parameters self)) (type (parameters self)) of
                  Inl e \<Rightarrow> Inl e
                | Inr encoded \<Rightarrow> decode_ascii encoded)))"
  by (auto simp: hash_def os_urandom_def split: sum.splits)

theorem hash_replaces_empty_salt_witness:
  "hash py_codecs sample_hash_secret counter
     \<lparr>parameters = low_memory, encoding = ustr ''utf-8''\<rparr>
     (PyStr (ustr ''correct battery horse'')) (Some [])
   = hash py_codecs sample_hash_secret counter
       \<lparr>parameters = low_memory, encoding = ustr ''utf-8''\<rparr>
       (PyStr (ustr ''correct battery horse'')) None
   \<and> hash py_codecs sample_hash_secret counter
       \<lparr>parameters = low_memory, encoding = ustr ''utf-8''\<rparr>
       (PyStr (ustr ''correct battery horse'')) (Some [])
     = Inr (ustr ''$argon2id$v=19$m=65536,t=3,p=4$AwoRGB8mLTQ7QklQV15lbA$AwoRGB8mLTQ7QklQV15lbGNvcnJlY3QgYmF0dGVyeSA'')"
proof -
  let ?self = "\<lparr>parameters = low_memory, encoding = ustr ''utf-8''\<rparr>"
  let ?pw = "PyStr (ustr ''correct battery horse'')"
  note inst = hash_replaces_empty_salt [where cs = py_codecs and hs = sample_hash_secret
      and ent = counter and self = ?self and password = ?pw]
  have c: "ensure_bytes py_codecs ?pw (encoding ?self) = Inr ''correct battery horse''"
    by (simp add: utf8_scenario_password)
  have z: "0 \<le> salt_len (parameters ?self)"
    by (simp add: low_memory_def)
  have f: "parameters ?self = low_memory" "salt_len low_memory = 16"
    "time_cost low_memory = 3" "memory_cost low_memory = 65536"
    "parallelism low_memory = 4" "hash_len low_memory = 32" "type low_memory = ID"
    by (simp_all add: low_memory_def)
  from inst c z obtain salt where salt: "os_urandom counter 16 = Inr salt"
    and ret: "hash py_codecs sample_hash_secret counter ?self ?pw (Some []) =
        (case sample_hash_secret ''correct battery horse'' salt 3 65536 4 32 ID of
           Inl e \<Rightarrow> Inl e
         | Inr encoded \<Rightarrow> decode_ascii encoded)"
    unfolding f by blast
  from salt have "salt = scenario_salt"
    by (simp add: os_urandom_counter)
  with ret have "hash py_codecs sample_hash_secret counter ?self ?pw (Some [])
                   = Inr (ustr scenario_hash)"
    by (simp add: sample_hash_secret_scenario decode_ascii_scenario_hash)
  with inst show ?thesis
    by simp
qed

end
